theory Spec2Isabelle
  imports Main "HOL-Library.Char_ord" "HOL-Library.List_Lexorder"
    "HOL-Library.Product_Lexorder" "HOL-Library.Multiset"
begin

section \<open>The generic\_cmake building block of hpccm\<close>

text \<open>
  A shallow embedding of \<^verbatim>\<open>hpccm/building_blocks/generic_cmake.py\<close>: the
  constructor \<^verbatim>\<open>__init__\<close> with its two private helpers \<^verbatim>\<open>__setup\<close> and
  \<^verbatim>\<open>__instructions\<close>, and the method \<^verbatim>\<open>runtime\<close>.

  Python values are modelled as follows. Text is \<open>string\<close>. An attribute that the
  code tests for truth (\<^verbatim>\<open>if self.url:\<close>) and that may be \<^verbatim>\<open>None\<close> is a
  \<open>string option\<close>. A dictionary is an association list in insertion order, with
  distinct keys. An exception is the left summand of a result.
\<close>

subsection \<open>Python helpers\<close>

datatype error = ConfigurationError | UnsupportedCombinationError | TypeError

text \<open>Truth value of an optional string: \<^verbatim>\<open>None\<close> and \<^verbatim>\<open>''\<close> are false.\<close>

definition truthy :: "string option \<Rightarrow> bool" where
  "truthy x = (case x of None \<Rightarrow> False | Some s \<Rightarrow> s \<noteq> [])"

text \<open>\<^verbatim>\<open>'{}'.format(x)\<close> for an optional string: \<^verbatim>\<open>None\<close> prints as \<^verbatim>\<open>None\<close>.\<close>

definition py_str :: "string option \<Rightarrow> string" where
  "py_str x = (case x of None \<Rightarrow> ''None'' | Some s \<Rightarrow> s)"

text \<open>\<^verbatim>\<open>sep.join(xs)\<close>.\<close>

fun str_join :: "string \<Rightarrow> string list \<Rightarrow> string" where
  "str_join sep [] = []"
| "str_join sep [x] = x"
| "str_join sep (x # y # ys) = x @ sep @ str_join sep (y # ys)"

text \<open>\<^verbatim>\<open>posixpath.isabs\<close>: the path starts with a slash.\<close>

definition isabs :: "string \<Rightarrow> bool" where
  "isabs p = (case p of [] \<Rightarrow> False | c # _ \<Rightarrow> c = CHR ''/'')"

text \<open>\<^verbatim>\<open>posixpath.join(a, b)\<close> on two strings.\<close>

definition posixpath_join :: "string \<Rightarrow> string \<Rightarrow> string" where
  "posixpath_join a b =
     (if isabs b then b
      else if a = [] \<or> last a = CHR ''/'' then a @ b
      else a @ ''/'' @ b)"

text \<open>
  \<^verbatim>\<open>posixpath.join(a, b)\<close> where an argument may be \<^verbatim>\<open>None\<close>: Python raises
  \<^verbatim>\<open>TypeError\<close> then.
\<close>

definition posixpath_join_opt :: "string option \<Rightarrow> string option \<Rightarrow> error + string" where
  "posixpath_join_opt a b =
     (case a of
        None \<Rightarrow> Inl TypeError
      | Some s \<Rightarrow> (case b of None \<Rightarrow> Inl TypeError | Some t \<Rightarrow> Inr (posixpath_join s t)))"

text \<open>\<^verbatim>\<open>posixpath.basename\<close>: what follows the last slash.\<close>

definition posixpath_basename :: "string \<Rightarrow> string" where
  "posixpath_basename p = rev (takeWhile (\<lambda>c. c \<noteq> CHR ''/'') (rev p))"

subsection \<open>Primitives and templates\<close>

type_synonym env = "(string \<times> string) list"

text \<open>The toolchain object is opaque to this module: a bag of selections.\<close>

type_synonym toolchain = "(string \<times> string) list"

text \<open>
  The four primitives the module constructs, with the arguments it gives them:
  \<^verbatim>\<open>comment(text, reformat)\<close>, \<^verbatim>\<open>copy(_from, src, dest)\<close>,
  \<^verbatim>\<open>environment(variables)\<close>, \<^verbatim>\<open>shell(_arguments, commands)\<close>.
\<close>

datatype instruction =
    Comment string bool
  | Copy string string string
  | Environment env
  | Shell "string option" "string list"

text \<open>
  The step generators of the template classes (\<^verbatim>\<open>hpccm.templates\<close>) and the
  rendering of a primitive (\<^verbatim>\<open>str(x)\<close>) live outside this module. They are
  parameters of the model. Each generator receives the arguments of the call and the
  attributes of its own template:
  \<^item> \<open>download_command\<close> and \<open>download_directory\<close>: what \<^verbatim>\<open>download_step\<close> returns and
    the value it leaves in \<^verbatim>\<open>self.src_directory\<close>, from url, repository, branch,
    commit, the recursive flag and the working directory;
  \<^item> \<open>configure_step\<close>: from \<^verbatim>\<open>cmake_opts\<close> and \<^verbatim>\<open>prefix\<close>, and the arguments
    build\_directory, directory, environment and toolchain;
  \<^item> \<open>build_step\<close>: from the optional target;
  \<^item> \<open>ldcache_step\<close>: from the directory;
  \<^item> \<open>cleanup_step\<close>: from the items;
  \<^item> \<open>environment_step\<close>: from the \<^verbatim>\<open>environment\<close> flag, the development and the
    runtime variables, and the \<^verbatim>\<open>runtime\<close> argument;
  \<^item> \<open>str_instruction\<close>: the text of a primitive.
\<close>

record providers =
  download_command ::
    "string option \<Rightarrow> string option \<Rightarrow> string option \<Rightarrow> string option \<Rightarrow> bool \<Rightarrow> string \<Rightarrow> string"
  download_directory :: "string option \<Rightarrow> string option \<Rightarrow> string \<Rightarrow> string"
  configure_step ::
    "string list \<Rightarrow> string option \<Rightarrow> string option \<Rightarrow> string \<Rightarrow> string list \<Rightarrow> toolchain \<Rightarrow> string"
  build_step :: "string option \<Rightarrow> string"
  ldcache_step :: "string \<Rightarrow> string"
  cleanup_step :: "string list \<Rightarrow> string"
  environment_step :: "bool \<Rightarrow> env \<Rightarrow> env \<Rightarrow> bool \<Rightarrow> env"
  str_instruction :: "instruction \<Rightarrow> string"

subsection \<open>The keyword arguments\<close>

text \<open>
  One field per keyword argument of the docstring (\<open>make_flag\<close> is \<^verbatim>\<open>make\<close>).
  The first ten are read by the template classes and stay public attributes; the
  others are the private attributes (\<^verbatim>\<open>self.__check\<close> and so on) of the block.
\<close>

record kwargs =
  url :: "string option"
  repository :: "string option"
  branch :: "string option"
  commit :: "string option"
  prefix :: "string option"
  ldconfig :: bool
  cmake_opts :: "string list"
  environment :: bool
  devel_environment :: env
  runtime_environment :: env
  build_directory :: "string option"
  build_environment :: env
  check :: bool
  directory :: "string option"
  install :: bool
  libdir :: "string option"
  make_flag :: bool
  postinstall :: "string list"
  preconfigure :: "string list"
  recursive :: bool
  run_arguments :: "string option"
  toolchain :: toolchain

text \<open>The defaults of \<^verbatim>\<open>kwargs.get\<close> and of the docstring.\<close>

definition default_kwargs :: kwargs where
  "default_kwargs =
     \<lparr>url = None, repository = None, branch = None, commit = None,
      prefix = Some ''/usr/local'', ldconfig = False, cmake_opts = [],
      environment = True, devel_environment = [], runtime_environment = [],
      build_directory = Some ''build'', build_environment = [], check = False,
      directory = None, install = True, libdir = Some ''lib'', make_flag = True,
      postinstall = [], preconfigure = [], recursive = False,
      run_arguments = None, toolchain = []\<rparr>"

text \<open>The block after construction: its attributes, and what the helpers filled in.\<close>

record generic_cmake =
  self :: kwargs
  src_directory :: string
  commands :: "string list"
  instructions :: "instruction list"

text \<open>\<^verbatim>\<open>self.__wd\<close>, the working directory.\<close>

definition wd :: string where
  "wd = ''/var/tmp''"

subsection \<open>The download step\<close>

text \<open>
  Modelled from the spec: the Downloader template (\<^verbatim>\<open>hpccm.templates.downloader\<close>,
  the method \<^verbatim>\<open>download_step\<close>) is not among the sources. Section 4.1 of the
  specification: it fails with \<^verbatim>\<open>ConfigurationError\<close> if neither or both of the
  archive URL and the repository are given, or if branch, commit or recursive are
  given without a repository; otherwise it produces one fetch command and the resolved
  source directory. Given is read as Python truth, as the module itself tests these
  attributes.
\<close>

definition download_step ::
  "providers \<Rightarrow> kwargs \<Rightarrow> bool \<Rightarrow> string \<Rightarrow> error + (string \<times> string)" where
  "download_step P kw rec w =
     (if truthy (url kw) = truthy (repository kw) then Inl ConfigurationError
      else if \<not> truthy (repository kw) \<and> (truthy (branch kw) \<or> truthy (commit kw) \<or> rec)
        then Inl ConfigurationError
      else Inr (download_command P (url kw) (repository kw) (branch kw) (commit kw) rec w,
                download_directory P (url kw) (repository kw) w))"

subsection \<open>The helper \_\_setup\<close>

text \<open>Lines 213 to 218: the directory containing the unarchived package.\<close>

definition resolve_src_directory :: "kwargs \<Rightarrow> string \<Rightarrow> string" where
  "resolve_src_directory kw downloaded =
     (case directory kw of
        None \<Rightarrow> downloaded
      | Some d \<Rightarrow>
          if d = [] then downloaded
          else if isabs d then d
          else posixpath_join wd d)"

text \<open>Lines 221 to 225: the preconfigure commands, run from the source directory.\<close>

definition preconfigure_commands :: "kwargs \<Rightarrow> string \<Rightarrow> string list" where
  "preconfigure_commands kw src =
     (if preconfigure kw \<noteq> [] then (''cd '' @ src) # preconfigure kw else [])"

text \<open>
  Lines 228 to 231: \<^verbatim>\<open>sorted(d.items())\<close> orders the (key, value) pairs as Python
  orders tuples, and each pair is rendered as \<^verbatim>\<open>key=value\<close>.
\<close>

definition build_environment_list :: "env \<Rightarrow> string list" where
  "build_environment_list be =
     (if be \<noteq> [] then map (\<lambda>(key, val). key @ ''='' @ val) (sort be) else [])"

text \<open>Lines 232 to 235.\<close>

definition configure_command :: "providers \<Rightarrow> kwargs \<Rightarrow> string \<Rightarrow> string" where
  "configure_command P kw src =
     configure_step P (cmake_opts kw) (prefix kw) (build_directory kw) src
       (build_environment_list (build_environment kw)) (toolchain kw)"

text \<open>Lines 238 to 247: build, check, install.\<close>

definition build_commands :: "providers \<Rightarrow> kwargs \<Rightarrow> string list" where
  "build_commands P kw =
     (if make_flag kw then [build_step P None] else []) @
     (if check kw then [build_step P (Some ''check'')] else []) @
     (if install kw then [build_step P (Some ''install'')] else [])"

text \<open>Lines 249 to 253: the postinstall commands, run from the install prefix.\<close>

definition postinstall_commands :: "kwargs \<Rightarrow> string list" where
  "postinstall_commands kw =
     (if postinstall kw \<noteq> [] then (''cd '' @ py_str (prefix kw)) # postinstall kw else [])"

text \<open>
  Lines 256 to 258, and 291 to 293 of \<^verbatim>\<open>runtime\<close>: the linker cache step for the
  library path, when \<^verbatim>\<open>ldconfig\<close> is set. Joining a missing path raises.
\<close>

definition ldconfig_commands :: "providers \<Rightarrow> kwargs \<Rightarrow> error + string list" where
  "ldconfig_commands P kw =
     (if ldconfig kw then
        (case posixpath_join_opt (prefix kw) (libdir kw) of
           Inl e \<Rightarrow> Inl e
         | Inr d \<Rightarrow> Inr [ldcache_step P d])
      else Inr [])"

text \<open>Lines 261 to 267: the list \<^verbatim>\<open>remove\<close>.\<close>

definition remove_items :: "kwargs \<Rightarrow> string \<Rightarrow> string list" where
  "remove_items kw src =
     [src] @
     (case url kw of
        None \<Rightarrow> []
      | Some u \<Rightarrow> if u \<noteq> [] then [posixpath_join wd (posixpath_basename u)] else []) @
     (case build_directory kw of
        None \<Rightarrow> []
      | Some b \<Rightarrow> if b \<noteq> [] then (if isabs b then [b] else []) else [])"

text \<open>
  \<^verbatim>\<open>__setup\<close>: the source directory and the list \<^verbatim>\<open>self.__commands\<close>, which starts
  empty and is appended to in this order.
\<close>

definition generic_cmake_setup :: "providers \<Rightarrow> kwargs \<Rightarrow> error + (string \<times> string list)" where
  "generic_cmake_setup P kw =
     (case download_step P kw (recursive kw) wd of
        Inl e \<Rightarrow> Inl e
      | Inr (fetch, downloaded) \<Rightarrow>
          let src = resolve_src_directory kw downloaded;
              cmds = [] @ [fetch];
              cmds = cmds @ preconfigure_commands kw src;
              cmds = cmds @ [configure_command P kw src];
              cmds = cmds @ build_commands P kw;
              cmds = cmds @ postinstall_commands kw
          in (case ldconfig_commands P kw of
                Inl e \<Rightarrow> Inl e
              | Inr ld \<Rightarrow>
                  Inr (src, cmds @ ld @ [cleanup_step P (remove_items kw src)])))"

subsection \<open>The helper \_\_instructions and the constructor\<close>

text \<open>Lines 196 to 199 and 285 to 288: the comment naming the source.\<close>

definition source_comment :: "kwargs \<Rightarrow> instruction list" where
  "source_comment kw =
     (if truthy (url kw) then [Comment (py_str (url kw)) False]
      else if truthy (repository kw) then [Comment (py_str (repository kw)) False]
      else [])"

definition generic_cmake_instructions :: "providers \<Rightarrow> kwargs \<Rightarrow> string list \<Rightarrow> instruction list" where
  "generic_cmake_instructions P kw cmds =
     source_comment kw @
     [Shell (run_arguments kw) cmds,
      Environment (environment_step P (environment kw) (devel_environment kw)
                     (runtime_environment kw) False)]"

definition generic_cmake_init :: "providers \<Rightarrow> kwargs \<Rightarrow> error + generic_cmake" where
  "generic_cmake_init P kw =
     (case generic_cmake_setup P kw of
        Inl e \<Rightarrow> Inl e
      | Inr (src, cmds) \<Rightarrow>
          Inr \<lparr>self = kw, src_directory = src, commands = cmds,
               instructions = generic_cmake_instructions P kw cmds\<rparr>)"

subsection \<open>The method runtime\<close>

text \<open>
  The local list \<^verbatim>\<open>instructions\<close> of \<^verbatim>\<open>runtime\<close>, built when the prefix is true
  (so that \<^verbatim>\<open>self.prefix\<close> is a string there).
\<close>

definition runtime_instructions ::
  "providers \<Rightarrow> generic_cmake \<Rightarrow> string \<Rightarrow> error + instruction list" where
  "runtime_instructions P g from =
     (let instrs = [] @ source_comment (self g);
          instrs = instrs @ [Copy from (py_str (prefix (self g))) (py_str (prefix (self g)))]
      in (case ldconfig_commands P (self g) of
            Inl e \<Rightarrow> Inl e
          | Inr ld \<Rightarrow>
              let instrs = instrs @ (if ldconfig (self g) then [Shell None ld] else []);
                  instrs = instrs @
                    (if runtime_environment (self g) \<noteq> []
                     then [Environment (environment_step P (environment (self g))
                             (devel_environment (self g)) (runtime_environment (self g)) True)]
                     else [])
              in Inr instrs))"

text \<open>
  \<^verbatim>\<open>runtime\<close> returns the rendered instructions joined by newlines, or \<^verbatim>\<open>None\<close>
  when the prefix is false.
\<close>

definition runtime :: "providers \<Rightarrow> generic_cmake \<Rightarrow> string \<Rightarrow> error + string option" where
  "runtime P g from =
     (if truthy (prefix (self g))
      then (case runtime_instructions P g from of
              Inl e \<Rightarrow> Inl e
            | Inr instrs \<Rightarrow> Inr (Some (str_join [CHR 0x0A] (map (str_instruction P) instrs))))
      else Inr None)"

text \<open>
  A call of \<^verbatim>\<open>runtime\<close> assigns to no attribute: the block after the call is the
  block before it. Successive calls on one block, with their results in order:
\<close>

fun runtime_calls ::
  "providers \<Rightarrow> string \<Rightarrow> nat \<Rightarrow> generic_cmake \<Rightarrow>
     (error + string option) list \<times> generic_cmake" where
  "runtime_calls P from 0 g = ([], g)"
| "runtime_calls P from (Suc n) g =
     (let r = runtime P g from;
          (rs, g') = runtime_calls P from n g
      in (r # rs, g'))"

subsection \<open>A sample instance of the providers\<close>

text \<open>
  Plain renderings used to evaluate the model on concrete inputs. The theorems below
  hold for every instance.
\<close>

definition show_opt :: "string option \<Rightarrow> string" where
  "show_opt x = (case x of None \<Rightarrow> ''-'' | Some s \<Rightarrow> s)"

definition sample_providers :: providers where
  "sample_providers =
     \<lparr>download_command = (\<lambda>u r b c rec w.
         ''fetch '' @ show_opt u @ show_opt r @ '' into '' @ w),
      download_directory = (\<lambda>u r w. posixpath_join w ''src''),
      configure_step = (\<lambda>opts pre bd d e tc.
         str_join '' '' (e @ [''cmake''] @ opts @ [d])),
      build_step = (\<lambda>t. ''make '' @ show_opt t),
      ldcache_step = (\<lambda>d. ''ldconfig '' @ d),
      cleanup_step = (\<lambda>items. str_join '' '' (''rm -rf'' # items)),
      environment_step = (\<lambda>flag dev run rt. if flag then (if rt then run else dev) else []),
      str_instruction = (\<lambda>i. case i of
           Comment t _ \<Rightarrow> ''# '' @ t
         | Copy f s d \<Rightarrow> ''COPY --from='' @ f @ '' '' @ s @ '' '' @ d
         | Environment vs \<Rightarrow> ''ENV '' @ str_join '' '' (map (\<lambda>(k, v). k @ ''='' @ v) vs)
         | Shell a cs \<Rightarrow> ''RUN '' @ str_join '' && '' cs)\<rparr>"

text \<open>The end-to-end example of the specification, section 8.\<close>

definition example_kwargs :: kwargs where
  "example_kwargs =
     default_kwargs\<lparr>url := Some ''https://x/y/pkg-1.0.tar.gz'',
       prefix := Some ''/usr/local/pkg'', cmake_opts := [''-D A=ON'', ''-D B=OFF''],
       ldconfig := True, libdir := Some ''lib64''\<rparr>"

text \<open>The same package with every optional step switched on.\<close>

definition full_kwargs :: kwargs where
  "full_kwargs =
     example_kwargs\<lparr>preconfigure := [''./autogen.sh''], check := True,
       postinstall := [''strip bin/pkg''],
       build_environment := [(''CXX'', ''g++''), (''CC'', ''gcc'')],
       devel_environment := [(''A'', ''1'')],
       runtime_environment := [(''PATH'', ''/usr/local/pkg/bin'')]\<rparr>"

text \<open>The same package with every optional step switched off.\<close>

definition minimal_kwargs :: kwargs where
  "minimal_kwargs =
     example_kwargs\<lparr>make_flag := False, install := False, ldconfig := False\<rparr>"

text \<open>The block that a successful construction returns.\<close>

definition the_block :: "providers \<Rightarrow> kwargs \<Rightarrow> generic_cmake" where
  "the_block P kw = projr (generic_cmake_init P kw)"

text \<open>The same, built in an absolute directory outside the source tree.\<close>

definition absolute_kwargs :: kwargs where
  "absolute_kwargs = minimal_kwargs\<lparr>build_directory := Some ''/var/tmp/xyz/build''\<rparr>"

text \<open>Blocks without an install prefix, and with an empty library directory.\<close>

definition noprefix_kwargs :: kwargs where
  "noprefix_kwargs = minimal_kwargs\<lparr>prefix := None\<rparr>"

definition emptylib_kwargs :: kwargs where
  "emptylib_kwargs = example_kwargs\<lparr>libdir := Some []\<rparr>"

text \<open>The full example with its build environment inserted in the other order.\<close>

definition reordered_kwargs :: kwargs where
  "reordered_kwargs =
     full_kwargs\<lparr>build_environment := [(''CC'', ''gcc''), (''CXX'', ''g++'')]\<rparr>"

section \<open>Properties\<close>

subsection \<open>What a successful construction has done\<close>

lemma download_step_Inr:
  "download_step P kw r w = Inr (f, d) \<Longrightarrow>
     f = download_command P (url kw) (repository kw) (branch kw) (commit kw) r w \<and>
     d = download_directory P (url kw) (repository kw) w \<and>
     truthy (url kw) \<noteq> truthy (repository kw) \<and>
     (truthy (repository kw) \<or> \<not> (truthy (branch kw) \<or> truthy (commit kw) \<or> r))"
  by (auto simp: download_step_def split: if_splits)

lemma ldconfig_commands_Inr:
  "ldconfig_commands P kw = Inr ld \<Longrightarrow>
     (ldconfig kw \<longrightarrow> prefix kw \<noteq> None \<and> libdir kw \<noteq> None) \<and>
     ld = (if ldconfig kw
           then [ldcache_step P (posixpath_join (the (prefix kw)) (the (libdir kw)))]
           else [])"
  by (auto simp: ldconfig_commands_def posixpath_join_opt_def split: if_splits option.splits)

lemma init_Inr:
  assumes "generic_cmake_init P kw = Inr g"
  shows "self g = kw"
    and "src_directory g =
           resolve_src_directory kw (download_directory P (url kw) (repository kw) wd)"
    and "commands g =
           [download_command P (url kw) (repository kw) (branch kw) (commit kw)
              (recursive kw) wd] @
           preconfigure_commands kw (src_directory g) @
           [configure_command P kw (src_directory g)] @
           build_commands P kw @
           postinstall_commands kw @
           (if ldconfig kw
            then [ldcache_step P (posixpath_join (the (prefix kw)) (the (libdir kw)))]
            else []) @
           [cleanup_step P (remove_items kw (src_directory g))]"
    and "instructions g = generic_cmake_instructions P kw (commands g)"
    and "ldconfig kw \<Longrightarrow> prefix kw \<noteq> None \<and> libdir kw \<noteq> None"
    and "truthy (url kw) \<noteq> truthy (repository kw)"
    and "truthy (repository kw) \<or>
           \<not> (truthy (branch kw) \<or> truthy (commit kw) \<or> recursive kw)"
proof -
  obtain src cmds where s: "generic_cmake_setup P kw = Inr (src, cmds)"
    and g: "g = \<lparr>self = kw, src_directory = src, commands = cmds,
                  instructions = generic_cmake_instructions P kw cmds\<rparr>"
    using assms by (auto simp: generic_cmake_init_def split: sum.splits)
  obtain f d where dl: "download_step P kw (recursive kw) wd = Inr (f, d)"
    using s by (auto simp: generic_cmake_setup_def split: sum.splits)
  obtain ld where ld: "ldconfig_commands P kw = Inr ld"
    using s dl by (auto simp: generic_cmake_setup_def Let_def split: sum.splits)
  have src: "src = resolve_src_directory kw d"
    and cmds: "cmds = [f] @ preconfigure_commands kw src @ [configure_command P kw src] @
        build_commands P kw @ postinstall_commands kw @ ld @
        [cleanup_step P (remove_items kw src)]"
    using s dl ld by (auto simp: generic_cmake_setup_def Let_def)
  note D = download_step_Inr [OF dl]
  note L = ldconfig_commands_Inr [OF ld]
  show "self g = kw" by (simp add: g)
  show "src_directory g =
           resolve_src_directory kw (download_directory P (url kw) (repository kw) wd)"
    using D by (simp add: g src)
  show "commands g =
           [download_command P (url kw) (repository kw) (branch kw) (commit kw)
              (recursive kw) wd] @
           preconfigure_commands kw (src_directory g) @
           [configure_command P kw (src_directory g)] @
           build_commands P kw @
           postinstall_commands kw @
           (if ldconfig kw
            then [ldcache_step P (posixpath_join (the (prefix kw)) (the (libdir kw)))]
            else []) @
           [cleanup_step P (remove_items kw (src_directory g))]"
    using D L by (simp add: g cmds)
  show "instructions g = generic_cmake_instructions P kw (commands g)" by (simp add: g)
  show "ldconfig kw \<Longrightarrow> prefix kw \<noteq> None \<and> libdir kw \<noteq> None" using L by simp
  show "truthy (url kw) \<noteq> truthy (repository kw)" using D by simp
  show "truthy (repository kw) \<or>
           \<not> (truthy (branch kw) \<or> truthy (commit kw) \<or> recursive kw)"
    using D by simp
qed

text \<open>Construction succeeds exactly when the source is valid and the library path joins.\<close>

lemma init_total:
  assumes "truthy (url kw) \<noteq> truthy (repository kw)"
    and "truthy (repository kw) \<or>
           \<not> (truthy (branch kw) \<or> truthy (commit kw) \<or> recursive kw)"
    and "ldconfig kw \<Longrightarrow> prefix kw \<noteq> None \<and> libdir kw \<noteq> None"
  shows "\<exists>g. generic_cmake_init P kw = Inr g"
  using assms
  by (auto simp: generic_cmake_init_def generic_cmake_setup_def download_step_def Let_def
      ldconfig_commands_def posixpath_join_opt_def split: sum.splits option.splits)

lemma the_block_init:
  "\<not> isl (generic_cmake_init P kw) \<Longrightarrow> generic_cmake_init P kw = Inr (the_block P kw)"
  by (simp add: the_block_def)

lemma full_block_init:
  "generic_cmake_init sample_providers full_kwargs = Inr (the_block sample_providers full_kwargs)"
  by (rule the_block_init) code_simp

lemma minimal_block_init:
  "generic_cmake_init sample_providers minimal_kwargs =
     Inr (the_block sample_providers minimal_kwargs)"
  by (rule the_block_init) code_simp

subsection \<open>The order of the commands\<close>

text \<open>
  C1. Whenever construction succeeds, the list of shell commands is, in this order:
  the fetch command; the change to the source directory and the preconfigure commands,
  if there are any; the configure command; the build command if \<^verbatim>\<open>make\<close> is set;
  the check command if \<^verbatim>\<open>check\<close> is set; the install command if \<^verbatim>\<open>install\<close> is
  set; the change to the prefix and the postinstall commands, if there are any; the
  linker cache step if \<^verbatim>\<open>ldconfig\<close> is set; the cleanup command. The keyword
  arguments decide which segments are present, never where they stand.
\<close>

theorem setup_step_order:
  assumes "generic_cmake_init P kw = Inr g"
  shows "commands g =
     [download_command P (url kw) (repository kw) (branch kw) (commit kw) (recursive kw) wd] @
     (if preconfigure kw \<noteq> [] then (''cd '' @ src_directory g) # preconfigure kw else []) @
     [configure_step P (cmake_opts kw) (prefix kw) (build_directory kw) (src_directory g)
        (build_environment_list (build_environment kw)) (toolchain kw)] @
     (if make_flag kw then [build_step P None] else []) @
     (if check kw then [build_step P (Some ''check'')] else []) @
     (if install kw then [build_step P (Some ''install'')] else []) @
     (if postinstall kw \<noteq> [] then (''cd '' @ py_str (prefix kw)) # postinstall kw else []) @
     (if ldconfig kw
      then [ldcache_step P (posixpath_join (the (prefix kw)) (the (libdir kw)))] else []) @
     [cleanup_step P (remove_items kw (src_directory g))]"
  unfolding init_Inr(3) [OF assms]
  by (simp add: preconfigure_commands_def configure_command_def build_commands_def
      postinstall_commands_def)

theorem setup_step_order_witness:
  "generic_cmake_init sample_providers full_kwargs =
     Inr (the_block sample_providers full_kwargs) \<and>
   commands (the_block sample_providers full_kwargs) =
     [''fetch https://x/y/pkg-1.0.tar.gz- into /var/tmp'',
      ''cd /var/tmp/src'', ''./autogen.sh'',
      ''CC=gcc CXX=g++ cmake -D A=ON -D B=OFF /var/tmp/src'',
      ''make -'', ''make check'', ''make install'',
      ''cd /usr/local/pkg'', ''strip bin/pkg'',
      ''ldconfig /usr/local/pkg/lib64'',
      ''rm -rf /var/tmp/src /var/tmp/pkg-1.0.tar.gz'']"
proof
  show "generic_cmake_init sample_providers full_kwargs =
     Inr (the_block sample_providers full_kwargs)"
    by (rule full_block_init)
  show "commands (the_block sample_providers full_kwargs) =
     [''fetch https://x/y/pkg-1.0.tar.gz- into /var/tmp'',
      ''cd /var/tmp/src'', ''./autogen.sh'',
      ''CC=gcc CXX=g++ cmake -D A=ON -D B=OFF /var/tmp/src'',
      ''make -'', ''make check'', ''make install'',
      ''cd /usr/local/pkg'', ''strip bin/pkg'',
      ''ldconfig /usr/local/pkg/lib64'',
      ''rm -rf /var/tmp/src /var/tmp/pkg-1.0.tar.gz'']"
    apply (subst setup_step_order [OF full_block_init])
    apply code_simp
    done
qed

text \<open>
  C10. Whenever construction succeeds, the command list is not empty, starts with the
  fetch command and ends with the cleanup command; and with \<^verbatim>\<open>make\<close>, \<^verbatim>\<open>check\<close>,
  \<^verbatim>\<open>install\<close> and \<^verbatim>\<open>ldconfig\<close> all false and no preconfigure and postinstall
  commands, it is exactly the fetch, the configure and the cleanup command.
\<close>

theorem minimal_command_list:
  assumes "generic_cmake_init P kw = Inr g"
  shows "commands g \<noteq> [] \<and>
     hd (commands g) =
       download_command P (url kw) (repository kw) (branch kw) (commit kw) (recursive kw) wd \<and>
     last (commands g) = cleanup_step P (remove_items kw (src_directory g)) \<and>
     (\<not> make_flag kw \<and> \<not> check kw \<and> \<not> install kw \<and> \<not> ldconfig kw \<and>
      preconfigure kw = [] \<and> postinstall kw = [] \<longrightarrow>
      commands g =
        [download_command P (url kw) (repository kw) (branch kw) (commit kw) (recursive kw) wd,
         configure_step P (cmake_opts kw) (prefix kw) (build_directory kw) (src_directory g)
           (build_environment_list (build_environment kw)) (toolchain kw),
         cleanup_step P (remove_items kw (src_directory g))])"
  unfolding init_Inr(3) [OF assms]
  by (simp add: preconfigure_commands_def configure_command_def build_commands_def
      postinstall_commands_def)

theorem minimal_command_list_witness:
  "generic_cmake_init sample_providers minimal_kwargs =
     Inr (the_block sample_providers minimal_kwargs) \<and>
   \<not> make_flag minimal_kwargs \<and> \<not> check minimal_kwargs \<and> \<not> install minimal_kwargs \<and>
   \<not> ldconfig minimal_kwargs \<and> preconfigure minimal_kwargs = [] \<and>
   postinstall minimal_kwargs = [] \<and>
   commands (the_block sample_providers minimal_kwargs) =
     [''fetch https://x/y/pkg-1.0.tar.gz- into /var/tmp'',
      ''cmake -D A=ON -D B=OFF /var/tmp/src'',
      ''rm -rf /var/tmp/src /var/tmp/pkg-1.0.tar.gz'']"
proof -
  have flags: "\<not> make_flag minimal_kwargs \<and> \<not> check minimal_kwargs \<and>
      \<not> install minimal_kwargs \<and> \<not> ldconfig minimal_kwargs \<and>
      preconfigure minimal_kwargs = [] \<and> postinstall minimal_kwargs = []"
    by (simp add: minimal_kwargs_def example_kwargs_def default_kwargs_def)
  note three = minimal_command_list [OF minimal_block_init, THEN conjunct2, THEN conjunct2,
      THEN conjunct2, THEN mp, OF flags]
  have "commands (the_block sample_providers minimal_kwargs) =
     [''fetch https://x/y/pkg-1.0.tar.gz- into /var/tmp'',
      ''cmake -D A=ON -D B=OFF /var/tmp/src'',
      ''rm -rf /var/tmp/src /var/tmp/pkg-1.0.tar.gz'']"
    apply (subst three)
    apply code_simp
    done
  then show ?thesis using minimal_block_init flags by simp
qed

lemma absolute_block_init:
  "generic_cmake_init sample_providers absolute_kwargs =
     Inr (the_block sample_providers absolute_kwargs)"
  by (rule the_block_init) code_simp

subsection \<open>The cleanup step\<close>

text \<open>
  C3. Whenever construction succeeds, the last command is the cleanup step of a list
  of paths that starts with the source directory, always; then holds the downloaded
  archive (the basename of the URL joined to the working directory) exactly when the
  URL is true; then holds the build directory exactly when it is a non-empty absolute
  path. A relative build directory is not added.
\<close>

theorem cleanup_items:
  assumes "generic_cmake_init P kw = Inr g"
  shows "last (commands g) =
     cleanup_step P
       (src_directory g #
        (if truthy (url kw)
         then [posixpath_join wd (posixpath_basename (the (url kw)))] else []) @
        (if truthy (build_directory kw) \<and> isabs (the (build_directory kw))
         then [the (build_directory kw)] else []))"
  unfolding init_Inr(3) [OF assms]
  by (auto simp: remove_items_def truthy_def split: option.splits)

theorem cleanup_items_witness:
  "generic_cmake_init sample_providers minimal_kwargs =
     Inr (the_block sample_providers minimal_kwargs) \<and>
   build_directory minimal_kwargs = Some ''build'' \<and>
   last (commands (the_block sample_providers minimal_kwargs)) =
     cleanup_step sample_providers [''/var/tmp/src'', ''/var/tmp/pkg-1.0.tar.gz''] \<and>
   generic_cmake_init sample_providers absolute_kwargs =
     Inr (the_block sample_providers absolute_kwargs) \<and>
   last (commands (the_block sample_providers absolute_kwargs)) =
     cleanup_step sample_providers
       [''/var/tmp/src'', ''/var/tmp/pkg-1.0.tar.gz'', ''/var/tmp/xyz/build'']"
proof -
  have rel: "last (commands (the_block sample_providers minimal_kwargs)) =
     cleanup_step sample_providers [''/var/tmp/src'', ''/var/tmp/pkg-1.0.tar.gz'']"
    apply (subst cleanup_items [OF minimal_block_init])
    apply code_simp
    done
  have abs: "last (commands (the_block sample_providers absolute_kwargs)) =
     cleanup_step sample_providers
       [''/var/tmp/src'', ''/var/tmp/pkg-1.0.tar.gz'', ''/var/tmp/xyz/build'']"
    apply (subst cleanup_items [OF absolute_block_init])
    apply code_simp
    done
  have "build_directory minimal_kwargs = Some ''build''"
    by (simp add: minimal_kwargs_def example_kwargs_def default_kwargs_def)
  then show ?thesis using rel abs minimal_block_init absolute_block_init by simp
qed

subsection \<open>The working directories of preconfigure and postinstall\<close>

text \<open>
  C7. Whenever construction succeeds: if there are preconfigure commands, the fetch
  command is followed at once by the change to the resolved source directory, then by
  the preconfigure commands, then by the configure command; if there are postinstall
  commands, the change to the install prefix stands at once before them, after the
  configure command, and only the linker cache step and the cleanup step follow
  them. The first change names the source directory and the second the prefix,
  whatever the two paths are.
\<close>

theorem working_directories:
  assumes "generic_cmake_init P kw = Inr g"
  shows "(preconfigure kw \<noteq> [] \<longrightarrow>
       (\<exists>rest. commands g =
          [download_command P (url kw) (repository kw) (branch kw) (commit kw)
             (recursive kw) wd] @
          [''cd '' @ src_directory g] @ preconfigure kw @
          [configure_command P kw (src_directory g)] @ rest)) \<and>
     (postinstall kw \<noteq> [] \<longrightarrow>
       (\<exists>front. commands g =
          front @ [configure_command P kw (src_directory g)] @ build_commands P kw @
          [''cd '' @ py_str (prefix kw)] @ postinstall kw @
          (if ldconfig kw
           then [ldcache_step P (posixpath_join (the (prefix kw)) (the (libdir kw)))]
           else []) @
          [cleanup_step P (remove_items kw (src_directory g))]))"
proof (intro conjI impI)
  assume "preconfigure kw \<noteq> []"
  then show "\<exists>rest. commands g =
          [download_command P (url kw) (repository kw) (branch kw) (commit kw)
             (recursive kw) wd] @
          [''cd '' @ src_directory g] @ preconfigure kw @
          [configure_command P kw (src_directory g)] @ rest"
    unfolding init_Inr(3) [OF assms] by (simp add: preconfigure_commands_def)
next
  assume post: "postinstall kw \<noteq> []"
  let ?front = "[download_command P (url kw) (repository kw) (branch kw) (commit kw)
             (recursive kw) wd] @ preconfigure_commands kw (src_directory g)"
  have "commands g =
          ?front @ [configure_command P kw (src_directory g)] @ build_commands P kw @
          [''cd '' @ py_str (prefix kw)] @ postinstall kw @
          (if ldconfig kw
           then [ldcache_step P (posixpath_join (the (prefix kw)) (the (libdir kw)))]
           else []) @
          [cleanup_step P (remove_items kw (src_directory g))]"
    unfolding init_Inr(3) [OF assms] using post by (simp add: postinstall_commands_def)
  then show "\<exists>front. commands g =
          front @ [configure_command P kw (src_directory g)] @ build_commands P kw @
          [''cd '' @ py_str (prefix kw)] @ postinstall kw @
          (if ldconfig kw
           then [ldcache_step P (posixpath_join (the (prefix kw)) (the (libdir kw)))]
           else []) @
          [cleanup_step P (remove_items kw (src_directory g))]"
    by (rule exI)
qed

theorem working_directories_witness:
  "generic_cmake_init sample_providers full_kwargs =
     Inr (the_block sample_providers full_kwargs) \<and>
   preconfigure full_kwargs = [''./autogen.sh''] \<and>
   postinstall full_kwargs = [''strip bin/pkg''] \<and>
   src_directory (the_block sample_providers full_kwargs) = ''/var/tmp/src'' \<and>
   prefix full_kwargs = Some ''/usr/local/pkg'' \<and>
   (\<exists>rest. commands (the_block sample_providers full_kwargs) =
      [''fetch https://x/y/pkg-1.0.tar.gz- into /var/tmp'', ''cd /var/tmp/src'',
       ''./autogen.sh'', ''CC=gcc CXX=g++ cmake -D A=ON -D B=OFF /var/tmp/src''] @ rest) \<and>
   (\<exists>front. commands (the_block sample_providers full_kwargs) =
      front @ [''CC=gcc CXX=g++ cmake -D A=ON -D B=OFF /var/tmp/src'', ''make -'',
       ''make check'', ''make install'', ''cd /usr/local/pkg'', ''strip bin/pkg'',
       ''ldconfig /usr/local/pkg/lib64'', ''rm -rf /var/tmp/src /var/tmp/pkg-1.0.tar.gz''])"
proof -
  have pre: "preconfigure full_kwargs = [''./autogen.sh'']"
    and post: "postinstall full_kwargs = [''strip bin/pkg'']"
    and pfx: "prefix full_kwargs = Some ''/usr/local/pkg''"
    by (simp_all add: full_kwargs_def example_kwargs_def default_kwargs_def)
  have src: "src_directory (the_block sample_providers full_kwargs) = ''/var/tmp/src''"
    by code_simp
  have cfg: "configure_command sample_providers full_kwargs ''/var/tmp/src'' =
      ''CC=gcc CXX=g++ cmake -D A=ON -D B=OFF /var/tmp/src''"
    by code_simp
  have bld: "build_commands sample_providers full_kwargs =
      [''make -'', ''make check'', ''make install'']"
    by code_simp
  have fetch: "download_command sample_providers (url full_kwargs) (repository full_kwargs)
      (branch full_kwargs) (commit full_kwargs) (recursive full_kwargs) wd =
      ''fetch https://x/y/pkg-1.0.tar.gz- into /var/tmp''"
    by code_simp
  have ld: "(if ldconfig full_kwargs
      then [ldcache_step sample_providers
              (posixpath_join (the (prefix full_kwargs)) (the (libdir full_kwargs)))]
      else []) = [''ldconfig /usr/local/pkg/lib64'']"
    by code_simp
  have rm: "cleanup_step sample_providers (remove_items full_kwargs ''/var/tmp/src'') =
      ''rm -rf /var/tmp/src /var/tmp/pkg-1.0.tar.gz''"
    by code_simp
  note w = working_directories [OF full_block_init]
  have a: "\<exists>rest. commands (the_block sample_providers full_kwargs) =
      [''fetch https://x/y/pkg-1.0.tar.gz- into /var/tmp'', ''cd /var/tmp/src'',
       ''./autogen.sh'', ''CC=gcc CXX=g++ cmake -D A=ON -D B=OFF /var/tmp/src''] @ rest"
    using w [THEN conjunct1] by (simp add: pre src cfg fetch)
  have b: "\<exists>front. commands (the_block sample_providers full_kwargs) =
      front @ [''CC=gcc CXX=g++ cmake -D A=ON -D B=OFF /var/tmp/src'', ''make -'',
       ''make check'', ''make install'', ''cd /usr/local/pkg'', ''strip bin/pkg'',
       ''ldconfig /usr/local/pkg/lib64'', ''rm -rf /var/tmp/src /var/tmp/pkg-1.0.tar.gz'']"
    using w [THEN conjunct2] by (simp add: post src cfg bld ld rm pfx py_str_def)
  show ?thesis using full_block_init pre post src pfx a b by simp
qed

subsection \<open>Errors of the constructor\<close>

text \<open>
  C5. Construction raises \<^verbatim>\<open>ConfigurationError\<close> exactly when both or neither of
  the archive URL and the repository are given, or branch, commit or recursive is given
  without a repository. The result is then the error alone: no block, no command list
  and no instruction exist. The check is the one of the download step, modelled from
  the specification.
\<close>

theorem configuration_error:
  "generic_cmake_init P kw = Inl ConfigurationError \<longleftrightarrow>
     (truthy (url kw) \<and> truthy (repository kw)) \<or>
     (\<not> truthy (url kw) \<and> \<not> truthy (repository kw)) \<or>
     (\<not> truthy (repository kw) \<and>
        (truthy (branch kw) \<or> truthy (commit kw) \<or> recursive kw))"
  by (auto simp: generic_cmake_init_def generic_cmake_setup_def download_step_def Let_def
      ldconfig_commands_def posixpath_join_opt_def split: sum.splits option.splits)

theorem configuration_error_witness:
  "generic_cmake_init sample_providers
     (example_kwargs\<lparr>repository := Some ''https://github.com/x/y.git''\<rparr>) =
     Inl ConfigurationError \<and>
   generic_cmake_init sample_providers (example_kwargs\<lparr>url := None\<rparr>) =
     Inl ConfigurationError \<and>
   generic_cmake_init sample_providers (example_kwargs\<lparr>branch := Some ''v1.0''\<rparr>) =
     Inl ConfigurationError \<and>
   generic_cmake_init sample_providers (example_kwargs\<lparr>commit := Some ''abc123''\<rparr>) =
     Inl ConfigurationError \<and>
   generic_cmake_init sample_providers (example_kwargs\<lparr>recursive := True\<rparr>) =
     Inl ConfigurationError"
  by (intro conjI; subst configuration_error)
    (simp_all add: truthy_def example_kwargs_def default_kwargs_def)

lemma noprefix_block_init:
  "generic_cmake_init sample_providers noprefix_kwargs =
     Inr (the_block sample_providers noprefix_kwargs)"
  by (rule the_block_init) code_simp

lemma emptylib_block_init:
  "generic_cmake_init sample_providers emptylib_kwargs =
     Inr (the_block sample_providers emptylib_kwargs)"
  by (rule the_block_init) code_simp

text \<open>On a constructed block the method \<^verbatim>\<open>runtime\<close> returns: it raises nothing.\<close>

lemma runtime_instructions_constructed:
  assumes "generic_cmake_init P kw = Inr g"
  shows "runtime_instructions P g from =
     Inr (source_comment kw @
          [Copy from (py_str (prefix kw)) (py_str (prefix kw))] @
          (if ldconfig kw
           then [Shell None
                   [ldcache_step P (posixpath_join (the (prefix kw)) (the (libdir kw)))]]
           else []) @
          (if runtime_environment kw \<noteq> []
           then [Environment (environment_step P (environment kw) (devel_environment kw)
                   (runtime_environment kw) True)]
           else []))"
  using init_Inr(5) [OF assms]
  by (auto simp: runtime_instructions_def init_Inr(1) [OF assms] ldconfig_commands_def
      posixpath_join_opt_def Let_def)

subsection \<open>The runtime projection\<close>

text \<open>
  C8. For a constructed block whose prefix is \<^verbatim>\<open>None\<close> or the empty string, the
  method \<^verbatim>\<open>runtime\<close> returns \<^verbatim>\<open>None\<close>: it builds no instruction and raises no
  error, whatever the other keyword arguments and the stage are.
\<close>

theorem runtime_without_prefix:
  assumes "generic_cmake_init P kw = Inr g"
    and "prefix kw = None \<or> prefix kw = Some []"
  shows "runtime P g from = Inr None"
  using assms(2) by (auto simp: runtime_def init_Inr(1) [OF assms(1)] truthy_def)

theorem runtime_without_prefix_witness:
  "generic_cmake_init sample_providers noprefix_kwargs =
     Inr (the_block sample_providers noprefix_kwargs) \<and>
   prefix noprefix_kwargs = None \<and>
   runtime sample_providers (the_block sample_providers noprefix_kwargs) ''0'' = Inr None"
proof -
  have p: "prefix noprefix_kwargs = None"
    by (simp add: noprefix_kwargs_def)
  from p have "prefix noprefix_kwargs = None \<or> prefix noprefix_kwargs = Some []" ..
  from runtime_without_prefix [OF noprefix_block_init this] noprefix_block_init p
  show ?thesis by simp
qed

text \<open>
  C2. For a constructed block with a non-empty prefix, \<^verbatim>\<open>runtime\<close> returns the text
  of exactly these instructions, joined by newlines: the comment naming the source
  (the URL, or else the repository); the copy of the prefix from the given stage to the
  same path; a shell instruction with the linker cache step for the prefix joined with
  \<^verbatim>\<open>libdir\<close>, if and only if \<^verbatim>\<open>ldconfig\<close> is set; an environment instruction whose
  variables are what \<^verbatim>\<open>environment_step(runtime=True)\<close> returns, if and only if the
  runtime mapping is not empty. The build environment, the preconfigure and
  postinstall commands and the option list have no influence on the result: a block
  constructed with any other values for them has the same runtime projection.
\<close>

theorem runtime_projection:
  assumes "generic_cmake_init P kw = Inr g"
    and "prefix kw = Some p" and "p \<noteq> []"
  shows "(\<exists>instrs.
       runtime_instructions P g from = Inr instrs \<and>
       runtime P g from = Inr (Some (str_join [CHR 0x0A] (map (str_instruction P) instrs))) \<and>
       instrs =
         [Comment (if truthy (url kw) then the (url kw) else the (repository kw)) False,
          Copy from p p] @
         (if ldconfig kw
          then [Shell None [ldcache_step P (posixpath_join p (the (libdir kw)))]]
          else []) @
         (if runtime_environment kw \<noteq> []
          then [Environment (environment_step P (environment kw) (devel_environment kw)
                  (runtime_environment kw) True)]
          else [])) \<and>
     (\<exists>g'. generic_cmake_init P
            (kw\<lparr>build_environment := be, preconfigure := pre, postinstall := post,
                cmake_opts := opts\<rparr>) = Inr g' \<and>
          runtime P g' from = runtime P g from)"
proof (rule conjI)
  have src: "source_comment kw =
      [Comment (if truthy (url kw) then the (url kw) else the (repository kw)) False]"
    using init_Inr(6) [OF assms(1)]
    by (auto simp: source_comment_def truthy_def py_str_def split: option.splits)
  have t: "truthy (prefix (self g))"
    using assms(2,3) by (simp add: init_Inr(1) [OF assms(1)] truthy_def)
  show "\<exists>instrs.
       runtime_instructions P g from = Inr instrs \<and>
       runtime P g from = Inr (Some (str_join [CHR 0x0A] (map (str_instruction P) instrs))) \<and>
       instrs =
         [Comment (if truthy (url kw) then the (url kw) else the (repository kw)) False,
          Copy from p p] @
         (if ldconfig kw
          then [Shell None [ldcache_step P (posixpath_join p (the (libdir kw)))]]
          else []) @
         (if runtime_environment kw \<noteq> []
          then [Environment (environment_step P (environment kw) (devel_environment kw)
                  (runtime_environment kw) True)]
          else [])"
    using t assms(2)
    by (simp add: runtime_def runtime_instructions_constructed [OF assms(1)] src py_str_def)
next
  let ?kw' = "kw\<lparr>build_environment := be, preconfigure := pre, postinstall := post,
                cmake_opts := opts\<rparr>"
  have "\<exists>g'. generic_cmake_init P ?kw' = Inr g'"
    using init_Inr(5,6,7) [OF assms(1)] by (intro init_total) simp_all
  then obtain g' where g': "generic_cmake_init P ?kw' = Inr g'" ..
  have "runtime P g' from = runtime P g from"
    by (simp add: runtime_def runtime_instructions_constructed [OF g']
        runtime_instructions_constructed [OF assms(1)] init_Inr(1) [OF g']
        init_Inr(1) [OF assms(1)] source_comment_def)
  with g' show "\<exists>g'. generic_cmake_init P ?kw' = Inr g' \<and> runtime P g' from = runtime P g from"
    by blast
qed

theorem runtime_projection_witness:
  "generic_cmake_init sample_providers full_kwargs =
     Inr (the_block sample_providers full_kwargs) \<and>
   prefix full_kwargs = Some ''/usr/local/pkg'' \<and>
   runtime_instructions sample_providers (the_block sample_providers full_kwargs) ''0'' =
     Inr [Comment ''https://x/y/pkg-1.0.tar.gz'' False,
          Copy ''0'' ''/usr/local/pkg'' ''/usr/local/pkg'',
          Shell None [''ldconfig /usr/local/pkg/lib64''],
          Environment [(''PATH'', ''/usr/local/pkg/bin'')]] \<and>
   runtime sample_providers (the_block sample_providers full_kwargs) ''0'' =
     Inr (Some (str_join [CHR 0x0A]
       [''# https://x/y/pkg-1.0.tar.gz'',
        ''COPY --from=0 /usr/local/pkg /usr/local/pkg'',
        ''RUN ldconfig /usr/local/pkg/lib64'',
        ''ENV PATH=/usr/local/pkg/bin''])) \<and>
   runtime sample_providers
     (the_block sample_providers
        (full_kwargs\<lparr>build_environment := [], preconfigure := [], postinstall := [],
           cmake_opts := []\<rparr>)) ''0'' =
     runtime sample_providers (the_block sample_providers full_kwargs) ''0''"
proof -
  have p: "prefix full_kwargs = Some ''/usr/local/pkg''"
    by (simp add: full_kwargs_def example_kwargs_def)
  have ne: "''/usr/local/pkg'' \<noteq> []" by simp
  note r = runtime_projection [OF full_block_init p ne, of "''0''" "[]" "[]" "[]" "[]"]
  from r [THEN conjunct1] obtain instrs where
    i1: "runtime_instructions sample_providers (the_block sample_providers full_kwargs) ''0'' =
           Inr instrs"
    and i2: "runtime sample_providers (the_block sample_providers full_kwargs) ''0'' =
           Inr (Some (str_join [CHR 0x0A] (map (str_instruction sample_providers) instrs)))"
    and i3: "instrs =
         [Comment (if truthy (url full_kwargs) then the (url full_kwargs)
                   else the (repository full_kwargs)) False,
          Copy ''0'' ''/usr/local/pkg'' ''/usr/local/pkg''] @
         (if ldconfig full_kwargs
          then [Shell None [ldcache_step sample_providers
                  (posixpath_join ''/usr/local/pkg'' (the (libdir full_kwargs)))]]
          else []) @
         (if runtime_environment full_kwargs \<noteq> []
          then [Environment (environment_step sample_providers (environment full_kwargs)
                  (devel_environment full_kwargs) (runtime_environment full_kwargs) True)]
          else [])"
    by blast
  have i4: "instrs =
     [Comment ''https://x/y/pkg-1.0.tar.gz'' False,
      Copy ''0'' ''/usr/local/pkg'' ''/usr/local/pkg'',
      Shell None [''ldconfig /usr/local/pkg/lib64''],
      Environment [(''PATH'', ''/usr/local/pkg/bin'')]]"
    apply (subst i3)
    apply code_simp
    done
  have i5: "map (str_instruction sample_providers)
     [Comment ''https://x/y/pkg-1.0.tar.gz'' False,
      Copy ''0'' ''/usr/local/pkg'' ''/usr/local/pkg'',
      Shell None [''ldconfig /usr/local/pkg/lib64''],
      Environment [(''PATH'', ''/usr/local/pkg/bin'')]] =
       [''# https://x/y/pkg-1.0.tar.gz'',
        ''COPY --from=0 /usr/local/pkg /usr/local/pkg'',
        ''RUN ldconfig /usr/local/pkg/lib64'',
        ''ENV PATH=/usr/local/pkg/bin'']"
    by code_simp
  from r [THEN conjunct2] obtain g' where
    g1: "generic_cmake_init sample_providers
           (full_kwargs\<lparr>build_environment := [], preconfigure := [], postinstall := [],
              cmake_opts := []\<rparr>) = Inr g'"
    and g2: "runtime sample_providers g' ''0'' =
           runtime sample_providers (the_block sample_providers full_kwargs) ''0''"
    by blast
  have g3: "the_block sample_providers
           (full_kwargs\<lparr>build_environment := [], preconfigure := [], postinstall := [],
              cmake_opts := []\<rparr>) = g'"
    by (simp add: the_block_def g1)
  show ?thesis
    using full_block_init p i1 i2 g2 by (simp only: i4 i5 g3 simp_thms)
qed

subsection \<open>A flag whose prerequisite is missing\<close>

text \<open>
  The constructor has no check of its own on \<^verbatim>\<open>ldconfig\<close> and \<^verbatim>\<open>libdir\<close>, and no
  error named \<^verbatim>\<open>UnsupportedCombinationError\<close>. With \<^verbatim>\<open>ldconfig\<close> set and the empty
  string as \<^verbatim>\<open>libdir\<close>, construction succeeds and registers the prefix with a
  trailing slash; with \<^verbatim>\<open>None\<close> as \<^verbatim>\<open>libdir\<close>, \<^verbatim>\<open>posixpath.join\<close> raises
  \<^verbatim>\<open>TypeError\<close>.
\<close>

theorem unsupported_combination_counterexample:
  "ldconfig emptylib_kwargs \<and> libdir emptylib_kwargs = Some [] \<and>
   generic_cmake_init sample_providers emptylib_kwargs =
     Inr (the_block sample_providers emptylib_kwargs) \<and>
   commands (the_block sample_providers emptylib_kwargs) =
     [''fetch https://x/y/pkg-1.0.tar.gz- into /var/tmp'',
      ''cmake -D A=ON -D B=OFF /var/tmp/src'', ''make -'', ''make install'',
      ''ldconfig /usr/local/pkg/'',
      ''rm -rf /var/tmp/src /var/tmp/pkg-1.0.tar.gz''] \<and>
   generic_cmake_init sample_providers (example_kwargs\<lparr>libdir := None\<rparr>) = Inl TypeError"
proof -
  have "ldconfig emptylib_kwargs \<and> libdir emptylib_kwargs = Some []"
    by (simp add: emptylib_kwargs_def example_kwargs_def)
  moreover have "commands (the_block sample_providers emptylib_kwargs) =
     [''fetch https://x/y/pkg-1.0.tar.gz- into /var/tmp'',
      ''cmake -D A=ON -D B=OFF /var/tmp/src'', ''make -'', ''make install'',
      ''ldconfig /usr/local/pkg/'',
      ''rm -rf /var/tmp/src /var/tmp/pkg-1.0.tar.gz'']"
    by code_simp
  moreover have
    "generic_cmake_init sample_providers (example_kwargs\<lparr>libdir := None\<rparr>) = Inl TypeError"
    by code_simp
  ultimately show ?thesis using emptylib_block_init by simp
qed

text \<open>
  C9, amended. Construction never raises \<^verbatim>\<open>UnsupportedCombinationError\<close>. With a
  valid source and \<^verbatim>\<open>ldconfig\<close> set, a prefix or a \<^verbatim>\<open>libdir\<close> that is \<^verbatim>\<open>None\<close>
  makes construction raise \<^verbatim>\<open>TypeError\<close>; every string \<^verbatim>\<open>libdir\<close>, the empty one
  too, is accepted, and the linker cache step for the prefix joined with it is in the
  command list. The error is raised at construction: on a constructed block,
  \<^verbatim>\<open>runtime\<close> raises nothing.
\<close>

theorem ldconfig_prerequisite:
  "generic_cmake_init P kw \<noteq> Inl UnsupportedCombinationError \<and>
   (ldconfig kw \<and> (prefix kw = None \<or> libdir kw = None) \<and>
    generic_cmake_init P kw \<noteq> Inl ConfigurationError \<longrightarrow>
      generic_cmake_init P kw = Inl TypeError) \<and>
   (\<forall>g. generic_cmake_init P kw = Inr g \<and> ldconfig kw \<longrightarrow>
      (\<exists>p l. prefix kw = Some p \<and> libdir kw = Some l \<and>
         ldcache_step P (posixpath_join p l) \<in> set (commands g))) \<and>
   (\<forall>g from. generic_cmake_init P kw = Inr g \<longrightarrow> (\<exists>r. runtime P g from = Inr r))"
proof (intro conjI allI impI)
  show "generic_cmake_init P kw \<noteq> Inl UnsupportedCombinationError"
    by (auto simp: generic_cmake_init_def generic_cmake_setup_def download_step_def Let_def
        ldconfig_commands_def posixpath_join_opt_def split: sum.splits option.splits)
next
  assume "ldconfig kw \<and> (prefix kw = None \<or> libdir kw = None) \<and>
    generic_cmake_init P kw \<noteq> Inl ConfigurationError"
  then show "generic_cmake_init P kw = Inl TypeError"
    by (auto simp: generic_cmake_init_def generic_cmake_setup_def download_step_def Let_def
        ldconfig_commands_def posixpath_join_opt_def split: sum.splits option.splits if_splits)
next
  fix g
  assume a: "generic_cmake_init P kw = Inr g \<and> ldconfig kw"
  then have i: "generic_cmake_init P kw = Inr g" and l: "ldconfig kw" by simp_all
  from init_Inr(5) [OF i l] obtain p l' where pl: "prefix kw = Some p" "libdir kw = Some l'"
    by auto
  have "ldcache_step P (posixpath_join p l') \<in> set (commands g)"
    unfolding init_Inr(3) [OF i] using l pl by simp
  with pl show "\<exists>p l. prefix kw = Some p \<and> libdir kw = Some l \<and>
         ldcache_step P (posixpath_join p l) \<in> set (commands g)"
    by blast
next
  fix g stage
  assume i: "generic_cmake_init P kw = Inr g"
  show "\<exists>r. runtime P g stage = Inr r"
    by (simp add: runtime_def runtime_instructions_constructed [OF i])
qed

theorem ldconfig_prerequisite_witness:
  "generic_cmake_init sample_providers emptylib_kwargs =
     Inr (the_block sample_providers emptylib_kwargs) \<and>
   ldconfig emptylib_kwargs \<and>
   prefix emptylib_kwargs = Some ''/usr/local/pkg'' \<and> libdir emptylib_kwargs = Some [] \<and>
   ldcache_step sample_providers (posixpath_join ''/usr/local/pkg'' []) \<in>
     set (commands (the_block sample_providers emptylib_kwargs)) \<and>
   (\<exists>r. runtime sample_providers (the_block sample_providers emptylib_kwargs) ''0'' = Inr r) \<and>
   ldconfig (example_kwargs\<lparr>prefix := None\<rparr>) \<and>
   generic_cmake_init sample_providers (example_kwargs\<lparr>prefix := None\<rparr>) = Inl TypeError"
proof -
  have f: "ldconfig emptylib_kwargs" "prefix emptylib_kwargs = Some ''/usr/local/pkg''"
    "libdir emptylib_kwargs = Some []"
    by (simp_all add: emptylib_kwargs_def example_kwargs_def)
  note t = ldconfig_prerequisite [of sample_providers emptylib_kwargs]
  from t emptylib_block_init f(1)
  have "\<exists>p l. prefix emptylib_kwargs = Some p \<and> libdir emptylib_kwargs = Some l \<and>
         ldcache_step sample_providers (posixpath_join p l) \<in>
           set (commands (the_block sample_providers emptylib_kwargs))"
    by blast
  then have m: "ldcache_step sample_providers (posixpath_join ''/usr/local/pkg'' []) \<in>
     set (commands (the_block sample_providers emptylib_kwargs))"
    by (simp add: f)
  from t emptylib_block_init
  have r: "\<exists>r. runtime sample_providers (the_block sample_providers emptylib_kwargs) ''0'' = Inr r"
    by blast
  have n: "ldconfig (example_kwargs\<lparr>prefix := None\<rparr>)"
    "prefix (example_kwargs\<lparr>prefix := None\<rparr>) = None"
    by (simp_all add: example_kwargs_def)
  have c: "generic_cmake_init sample_providers (example_kwargs\<lparr>prefix := None\<rparr>) \<noteq>
      Inl ConfigurationError"
    by code_simp
  from ldconfig_prerequisite [of sample_providers "example_kwargs\<lparr>prefix := None\<rparr>"] n c
  have e: "generic_cmake_init sample_providers (example_kwargs\<lparr>prefix := None\<rparr>) =
      Inl TypeError"
    by blast
  show ?thesis using emptylib_block_init f m r n(1) e by simp
qed

subsection \<open>The build environment\<close>

text \<open>Sorting the items of a dictionary sorts its keys.\<close>

lemma sorted_keys_sort:
  fixes items :: "('a::linorder \<times> 'b::linorder) list"
  shows "sorted (map fst (sort items))"
proof -
  have "sorted_wrt (\<le>) (sort items)" by simp
  then have "sorted_wrt (\<lambda>x y. fst x \<le> fst y) (sort items)"
    by (rule sorted_wrt_mono_rel [rotated]) (auto simp: less_eq_prod_def)
  then show ?thesis by (simp add: sorted_map)
qed

text \<open>Two insertion orders of one dictionary sort to the same list.\<close>

lemma sort_same_mapping:
  fixes xs ys :: "('a::linorder \<times> 'b::linorder) list"
  assumes "distinct (map fst xs)" and "distinct (map fst ys)" and "map_of xs = map_of ys"
  shows "sort xs = sort ys"
proof -
  have "set xs = set ys"
    using assms by (simp add: map_of_inject_set)
  moreover have "distinct xs" "distinct ys"
    using assms(1,2) by (simp_all add: distinct_map)
  ultimately have "mset xs = mset ys"
    by (simp add: set_eq_iff_mset_eq_distinct)
  then have "sorted_list_of_multiset (mset xs) = sorted_list_of_multiset (mset ys)"
    by simp
  then show ?thesis by simp
qed

lemma build_environment_list_same_mapping:
  assumes "distinct (map fst xs)" and "distinct (map fst ys)" and "map_of xs = map_of ys"
  shows "build_environment_list xs = build_environment_list ys"
proof -
  have "set xs = set ys"
    using assms by (simp add: map_of_inject_set)
  then have "xs = [] \<longleftrightarrow> ys = []"
    by (metis set_empty)
  then show ?thesis
    by (simp add: build_environment_list_def sort_same_mapping [OF assms])
qed

text \<open>
  The build environment reaches the block through the configure command alone, so two
  insertion orders of it give the same commands and instructions.
\<close>

lemma init_same_mapping:
  assumes "generic_cmake_init P kw = Inr g"
    and "distinct (map fst (build_environment kw))" and "distinct (map fst be)"
    and "map_of be = map_of (build_environment kw)"
  shows "generic_cmake_init P (kw\<lparr>build_environment := be\<rparr>) =
     Inr (g\<lparr>self := kw\<lparr>build_environment := be\<rparr>\<rparr>)"
proof -
  let ?kw' = "kw\<lparr>build_environment := be\<rparr>"
  have e: "build_environment_list be = build_environment_list (build_environment kw)"
    by (rule build_environment_list_same_mapping) (rule assms)+
  have "\<exists>g'. generic_cmake_init P ?kw' = Inr g'"
    using init_Inr(5,6,7) [OF assms(1)] by (intro init_total) simp_all
  then obtain g' where g': "generic_cmake_init P ?kw' = Inr g'" ..
  have s: "src_directory g' = src_directory g"
    by (simp add: init_Inr(2) [OF g'] init_Inr(2) [OF assms(1)] resolve_src_directory_def)
  have c: "commands g' = commands g"
    unfolding init_Inr(3) [OF g'] init_Inr(3) [OF assms(1)] s
    by (simp add: preconfigure_commands_def configure_command_def e build_commands_def
        postinstall_commands_def remove_items_def)
  have i: "instructions g' = instructions g"
    unfolding init_Inr(4) [OF g'] init_Inr(4) [OF assms(1)] c
    by (simp add: generic_cmake_instructions_def source_comment_def)
  have "g' = g\<lparr>self := ?kw'\<rparr>"
    using s c i init_Inr(1) [OF g'] by (cases g, cases g') simp
  with g' show ?thesis by simp
qed

lemma reordered_block_init:
  "generic_cmake_init sample_providers reordered_kwargs =
     Inr (the_block sample_providers reordered_kwargs)"
  by (rule the_block_init) code_simp

lemma reordered_same_mapping:
  "distinct (map fst (build_environment full_kwargs))"
  "distinct (map fst [(''CC'', ''gcc''), (''CXX'', ''g++'')])"
  "map_of [(''CC'', ''gcc''), (''CXX'', ''g++'')] = map_of (build_environment full_kwargs)"
  by (auto simp: full_kwargs_def fun_eq_iff)

text \<open>
  C4. Whenever construction succeeds, the command after the fetch and preconfigure
  commands is the configure step, called with an environment list that renders, as
  \<^verbatim>\<open>key=value\<close>, the items of the build environment in ascending order of their
  keys. An empty build environment gives the empty list. Two insertion orders of one
  mapping give the same commands.
\<close>

theorem build_environment_sorted:
  assumes "generic_cmake_init P kw = Inr g"
  shows "\<exists>items.
     mset items = mset (build_environment kw) \<and>
     sorted (map fst items) \<and>
     (build_environment kw = [] \<longrightarrow> items = []) \<and>
     commands g ! Suc (length (preconfigure_commands kw (src_directory g))) =
       configure_step P (cmake_opts kw) (prefix kw) (build_directory kw) (src_directory g)
         (map (\<lambda>(key, val). key @ ''='' @ val) items) (toolchain kw) \<and>
     (\<forall>be g'. distinct (map fst (build_environment kw)) \<and> distinct (map fst be) \<and>
        map_of be = map_of (build_environment kw) \<and>
        generic_cmake_init P (kw\<lparr>build_environment := be\<rparr>) = Inr g' \<longrightarrow>
        commands g' = commands g)"
proof (intro exI [of _ "sort (build_environment kw)"] conjI allI impI)
  show "mset (sort (build_environment kw)) = mset (build_environment kw)" by simp
  show "sorted (map fst (sort (build_environment kw)))" by (rule sorted_keys_sort)
  show "sort (build_environment kw) = []" if "build_environment kw = []"
    using that by simp
  show "commands g ! Suc (length (preconfigure_commands kw (src_directory g))) =
       configure_step P (cmake_opts kw) (prefix kw) (build_directory kw) (src_directory g)
         (map (\<lambda>(key, val). key @ ''='' @ val) (sort (build_environment kw))) (toolchain kw)"
    unfolding init_Inr(3) [OF assms]
    by (simp add: nth_append configure_command_def build_environment_list_def)
next
  fix be g'
  assume a: "distinct (map fst (build_environment kw)) \<and> distinct (map fst be) \<and>
        map_of be = map_of (build_environment kw) \<and>
        generic_cmake_init P (kw\<lparr>build_environment := be\<rparr>) = Inr g'"
  then have "generic_cmake_init P (kw\<lparr>build_environment := be\<rparr>) =
     Inr (g\<lparr>self := kw\<lparr>build_environment := be\<rparr>\<rparr>)"
    by (intro init_same_mapping [OF assms]) simp_all
  with a show "commands g' = commands g" by auto
qed

theorem build_environment_sorted_witness:
  "generic_cmake_init sample_providers full_kwargs =
     Inr (the_block sample_providers full_kwargs) \<and>
   build_environment full_kwargs = [(''CXX'', ''g++''), (''CC'', ''gcc'')] \<and>
   (\<exists>items.
      mset items = mset [(''CXX'', ''g++''), (''CC'', ''gcc'')] \<and>
      sorted (map fst items) \<and>
      commands (the_block sample_providers full_kwargs) ! 3 =
        configure_step sample_providers [''-D A=ON'', ''-D B=OFF''] (Some ''/usr/local/pkg'')
          (Some ''build'') ''/var/tmp/src''
          (map (\<lambda>(key, val). key @ ''='' @ val) items) []) \<and>
   commands (the_block sample_providers full_kwargs) ! 3 =
     ''CC=gcc CXX=g++ cmake -D A=ON -D B=OFF /var/tmp/src'' \<and>
   generic_cmake_init sample_providers reordered_kwargs =
     Inr (the_block sample_providers reordered_kwargs) \<and>
   commands (the_block sample_providers reordered_kwargs) =
     commands (the_block sample_providers full_kwargs)"
proof -
  have be: "build_environment full_kwargs = [(''CXX'', ''g++''), (''CC'', ''gcc'')]"
    and f: "cmake_opts full_kwargs = [''-D A=ON'', ''-D B=OFF'']"
      "prefix full_kwargs = Some ''/usr/local/pkg''"
      "build_directory full_kwargs = Some ''build''" "toolchain full_kwargs = []"
    by (simp_all add: full_kwargs_def example_kwargs_def default_kwargs_def)
  have src: "src_directory (the_block sample_providers full_kwargs) = ''/var/tmp/src''"
    by code_simp
  have n: "Suc (length (preconfigure_commands full_kwargs ''/var/tmp/src'')) = 3"
    by code_simp
  have c3: "commands (the_block sample_providers full_kwargs) ! 3 =
     ''CC=gcc CXX=g++ cmake -D A=ON -D B=OFF /var/tmp/src''"
    by code_simp
  from build_environment_sorted [OF full_block_init] obtain items where
    i: "mset items = mset (build_environment full_kwargs)" "sorted (map fst items)"
      "commands (the_block sample_providers full_kwargs) !
         Suc (length (preconfigure_commands full_kwargs
           (src_directory (the_block sample_providers full_kwargs)))) =
       configure_step sample_providers (cmake_opts full_kwargs) (prefix full_kwargs)
         (build_directory full_kwargs)
         (src_directory (the_block sample_providers full_kwargs))
         (map (\<lambda>(key, val). key @ ''='' @ val) items) (toolchain full_kwargs)"
    and inv: "\<forall>be g'. distinct (map fst (build_environment full_kwargs)) \<and>
        distinct (map fst be) \<and> map_of be = map_of (build_environment full_kwargs) \<and>
        generic_cmake_init sample_providers (full_kwargs\<lparr>build_environment := be\<rparr>) = Inr g' \<longrightarrow>
        commands g' = commands (the_block sample_providers full_kwargs)"
    by blast
  have ex: "\<exists>items.
      mset items = mset [(''CXX'', ''g++''), (''CC'', ''gcc'')] \<and>
      sorted (map fst items) \<and>
      commands (the_block sample_providers full_kwargs) ! 3 =
        configure_step sample_providers [''-D A=ON'', ''-D B=OFF''] (Some ''/usr/local/pkg'')
          (Some ''build'') ''/var/tmp/src''
          (map (\<lambda>(key, val). key @ ''='' @ val) items) []"
    using i unfolding src n be f by (intro exI [of _ items]) simp
  have "commands (the_block sample_providers reordered_kwargs) =
     commands (the_block sample_providers full_kwargs)"
    using inv reordered_same_mapping reordered_block_init
    unfolding reordered_kwargs_def by blast
  then show ?thesis
    using full_block_init be ex c3 reordered_block_init by simp
qed

subsection \<open>Determinism\<close>

text \<open>
  C6. Emission is a function of the specification. Whenever construction succeeds,
  constructing again from the same keyword arguments, with the build environment
  inserted in any order, succeeds with the same instructions, structurally and as
  text, and the same runtime projection; and any number of successive calls of
  \<^verbatim>\<open>runtime\<close> on a block return the same result each time and leave the block as it
  was.
\<close>

theorem emission_deterministic:
  assumes "generic_cmake_init P kw = Inr g"
    and "distinct (map fst (build_environment kw))" and "distinct (map fst be)"
    and "map_of be = map_of (build_environment kw)"
  shows "(\<exists>g'. generic_cmake_init P (kw\<lparr>build_environment := be\<rparr>) = Inr g' \<and>
        instructions g' = instructions g \<and>
        map (str_instruction P) (instructions g') = map (str_instruction P) (instructions g) \<and>
        runtime P g' from = runtime P g from) \<and>
     runtime_calls P from n g = (replicate n (runtime P g from), g)"
proof (rule conjI)
  let ?g' = "g\<lparr>self := kw\<lparr>build_environment := be\<rparr>\<rparr>"
  have i: "generic_cmake_init P (kw\<lparr>build_environment := be\<rparr>) = Inr ?g'"
    by (rule init_same_mapping) (rule assms)+
  have "runtime P ?g' from = runtime P g from"
    by (simp add: runtime_def runtime_instructions_constructed [OF i]
        runtime_instructions_constructed [OF assms(1)] init_Inr(1) [OF assms(1)]
        source_comment_def)
  with i show "\<exists>g'. generic_cmake_init P (kw\<lparr>build_environment := be\<rparr>) = Inr g' \<and>
        instructions g' = instructions g \<and>
        map (str_instruction P) (instructions g') = map (str_instruction P) (instructions g) \<and>
        runtime P g' from = runtime P g from"
    by (intro exI [of _ ?g']) simp
next
  show "runtime_calls P from n g = (replicate n (runtime P g from), g)"
    by (induction n) simp_all
qed

theorem emission_deterministic_witness:
  "generic_cmake_init sample_providers full_kwargs =
     Inr (the_block sample_providers full_kwargs) \<and>
   generic_cmake_init sample_providers reordered_kwargs =
     Inr (the_block sample_providers reordered_kwargs) \<and>
   instructions (the_block sample_providers reordered_kwargs) =
     instructions (the_block sample_providers full_kwargs) \<and>
   runtime sample_providers (the_block sample_providers reordered_kwargs) ''0'' =
     runtime sample_providers (the_block sample_providers full_kwargs) ''0'' \<and>
   runtime_calls sample_providers ''0'' 3 (the_block sample_providers full_kwargs) =
     ([runtime sample_providers (the_block sample_providers full_kwargs) ''0'',
       runtime sample_providers (the_block sample_providers full_kwargs) ''0'',
       runtime sample_providers (the_block sample_providers full_kwargs) ''0''],
      the_block sample_providers full_kwargs)"
proof -
  note d = emission_deterministic [OF full_block_init reordered_same_mapping,
      of "''0''" 3]
  from d [THEN conjunct1] obtain g' where
    g': "generic_cmake_init sample_providers
           (full_kwargs\<lparr>build_environment := [(''CC'', ''gcc''), (''CXX'', ''g++'')]\<rparr>) = Inr g'"
    and e: "instructions g' = instructions (the_block sample_providers full_kwargs)"
      "runtime sample_providers g' ''0'' =
         runtime sample_providers (the_block sample_providers full_kwargs) ''0''"
    by blast
  have "the_block sample_providers reordered_kwargs = g'"
    using g' by (simp add: the_block_def reordered_kwargs_def)
  with e have "instructions (the_block sample_providers reordered_kwargs) =
     instructions (the_block sample_providers full_kwargs)"
    and "runtime sample_providers (the_block sample_providers reordered_kwargs) ''0'' =
     runtime sample_providers (the_block sample_providers full_kwargs) ''0''"
    by simp_all
  moreover have "replicate 3 (runtime sample_providers
      (the_block sample_providers full_kwargs) ''0'') =
     [runtime sample_providers (the_block sample_providers full_kwargs) ''0'',
      runtime sample_providers (the_block sample_providers full_kwargs) ''0'',
      runtime sample_providers (the_block sample_providers full_kwargs) ''0'']"
    by (simp add: numeral_3_eq_3)
  ultimately show ?thesis
    using full_block_init reordered_block_init d [THEN conjunct2] by simp
qed

end
